theory Spec2Isabelle
  imports Main "HOL-Library.Word"
begin

section \<open>Data model\<close>

text \<open>
  The module under study is \<^verbatim>\<open>src/constraints/constraints.c\<close> with its header
  \<^verbatim>\<open>constraints.h\<close>. All quantities it checks are \<^verbatim>\<open>uint32_t\<close>; they are modelled
  as 32-bit words, whose order is the unsigned one. The bounds are the private
  macros of \<^verbatim>\<open>constraints.c\<close> (lines 18 to 23); none of their sums leaves the 32-bit
  range, so evaluating them at the width of \<^verbatim>\<open>unsigned long\<close> or at 32 bits gives the
  same numbers.
\<close>

type_synonym u32 = "32 word"

definition SYS_CLK_MIN_HZ :: u32 where
  "SYS_CLK_MIN_HZ = 80000000"

definition SYS_CLK_MAX_HZ :: u32 where
  "SYS_CLK_MAX_HZ = 200000000"

definition RAM_START_ADDR :: u32 where
  "RAM_START_ADDR = 0x20000000"

definition RAM_SIZE_BYTES :: u32 where
  "RAM_SIZE_BYTES = 131072"

definition RAM_END_ADDR :: u32 where
  "RAM_END_ADDR = RAM_START_ADDR + RAM_SIZE_BYTES - 1"

text \<open>The constraint identifiers of \<^verbatim>\<open>constraints.h\<close> (lines 74 to 77).\<close>

definition CONSTRAINT_ID_SYS_CLK_RANGE :: u32 where
  "CONSTRAINT_ID_SYS_CLK_RANGE = 0x01"

definition CONSTRAINT_ID_RAM_ACCESS_OOB :: u32 where
  "CONSTRAINT_ID_RAM_ACCESS_OOB = 0x02"

definition CONSTRAINT_ID_SENSOR_TIMEOUT :: u32 where
  "CONSTRAINT_ID_SENSOR_TIMEOUT = 0x03"

definition CONSTRAINT_ID_COMM_BUFFER_FULL :: u32 where
  "CONSTRAINT_ID_COMM_BUFFER_FULL = 0x04"

subsection \<open>Formatted output\<close>

text \<open>
  A C string is modelled by the list of its characters before the terminating NUL.
  The conversions used by the module are \<^verbatim>\<open>%lu\<close> (decimal), \<^verbatim>\<open>%02lX\<close> and \<^verbatim>\<open>%08lX\<close>
  (upper-case hexadecimal, padded with zeros to a minimal width) and \<^verbatim>\<open>%s\<close>.
  \<^verbatim>\<open>snprintf(buf, size, ...)\<close> keeps at most \<open>size - 1\<close> characters of the formatted text.
  The numeric arguments are the 32-bit values of the callers, printed with their
  unsigned value.
\<close>

definition digit_char :: "nat \<Rightarrow> char" where
  "digit_char d = ''0123456789ABCDEF'' ! d"

fun fmt_lu :: "nat \<Rightarrow> string" where
  "fmt_lu n = (if n < 10 then [digit_char n]
               else fmt_lu (n div 10) @ [digit_char (n mod 10)])"

fun fmt_lX :: "nat \<Rightarrow> string" where
  "fmt_lX n = (if n < 16 then [digit_char n]
               else fmt_lX (n div 16) @ [digit_char (n mod 16)])"

declare fmt_lu.simps [simp del]
declare fmt_lX.simps [simp del]

definition zero_pad :: "nat \<Rightarrow> string \<Rightarrow> string" where
  "zero_pad width s = replicate (width - length s) (CHR ''0'') @ s"

definition fmt_02lX :: "u32 \<Rightarrow> string" where
  "fmt_02lX x = zero_pad 2 (fmt_lX (unat x))"

definition fmt_08lX :: "u32 \<Rightarrow> string" where
  "fmt_08lX x = zero_pad 8 (fmt_lX (unat x))"

definition snprintf :: "nat \<Rightarrow> string \<Rightarrow> string" where
  "snprintf n s = take (n - 1) s"

subsection \<open>Observable behaviour\<close>

text \<open>
  The module keeps no variables of its own; what it does besides returning values is
  to print lines and, on the fatal path, to enter a loop that has no exit. A run is
  therefore described by the trace of its events, in order: every line written by
  \<^verbatim>\<open>printf\<close>, and an entry mark for each call of the Violation Reporter and of the
  Escalation Handler with the arguments passed.

  A call either hands a value back to its caller, or is still inside a loop when the
  iteration budget (the fuel) is used up. In both cases the trace produced so far is
  kept.
\<close>

datatype event =
    Stdout string
  | Enter_ReportViolation u32 string
  | Enter_ErrorHandler u32 string

datatype 'a outcome =
    Returned 'a "event list"
  | Spinning "event list"

fun returned :: "'a outcome \<Rightarrow> 'a option" where
  "returned (Returned v t) = Some v"
| "returned (Spinning t) = None"

fun trace_of :: "'a outcome \<Rightarrow> event list" where
  "trace_of (Returned v t) = t"
| "trace_of (Spinning t) = t"

text \<open>The identifiers with which the Violation Reporter was entered, in order.\<close>

fun report_calls :: "event list \<Rightarrow> u32 list" where
  "report_calls [] = []"
| "report_calls (Enter_ReportViolation i m # es) = i # report_calls es"
| "report_calls (e # es) = report_calls es"

text \<open>The identifiers with which the Escalation Handler was entered, in order.\<close>

fun escalations :: "event list \<Rightarrow> u32 list" where
  "escalations [] = []"
| "escalations (Enter_ErrorHandler i m # es) = i # escalations es"
| "escalations (e # es) = escalations es"

text \<open>The lines printed, in order.\<close>

fun printed :: "event list \<Rightarrow> string list" where
  "printed [] = []"
| "printed (Stdout l # es) = l # printed es"
| "printed (e # es) = printed es"

section \<open>The functions of constraints.c\<close>

text \<open>\<^verbatim>\<open>LogHandler\<close> (lines 37 to 40): one \<^verbatim>\<open>printf("[%s] CONSTRAINTS: %s\n", ...)\<close>.\<close>

definition LogHandler :: "string \<Rightarrow> string \<Rightarrow> event list \<Rightarrow> event list" where
  "LogHandler level message t =
     t @ [Stdout (''['' @ level @ ''] CONSTRAINTS: '' @ message @ [CHR 0x0A])]"

text \<open>
  A \<^verbatim>\<open>while (cond) body\<close> loop whose body always completes. Each iteration costs one
  unit of fuel; a loop whose condition still holds when the fuel is used up is
  reported as \<open>Spinning\<close>.
\<close>

fun while_loop ::
  "nat \<Rightarrow> (event list \<Rightarrow> bool) \<Rightarrow> (event list \<Rightarrow> event list) \<Rightarrow> event list \<Rightarrow> unit outcome"
where
  "while_loop fuel cond body t =
     (if cond t
      then (case fuel of 0 \<Rightarrow> Spinning t | Suc n \<Rightarrow> while_loop n cond body (body t))
      else Returned () t)"

declare while_loop.simps [simp del]

text \<open>
  \<^verbatim>\<open>ErrorHandler\<close> (lines 55 to 68): logs the message at level FATAL, then runs
  \<^verbatim>\<open>while (true) { }\<close>. The identifier is not used in the body.
\<close>

definition ErrorHandler :: "nat \<Rightarrow> u32 \<Rightarrow> string \<Rightarrow> event list \<Rightarrow> unit outcome" where
  "ErrorHandler fuel violation_id message t =
     (let t1 = LogHandler ''FATAL'' message (t @ [Enter_ErrorHandler violation_id message])
      in while_loop fuel (\<lambda>_. True) (\<lambda>s. s) t1)"

text \<open>\<^verbatim>\<open>ConstraintsManager_ReportViolation\<close> (lines 172 to 182).\<close>

definition ConstraintsManager_ReportViolation ::
  "nat \<Rightarrow> u32 \<Rightarrow> string \<Rightarrow> event list \<Rightarrow> unit outcome"
where
  "ConstraintsManager_ReportViolation fuel constraint_id error_message t =
     (let full_msg = snprintf 256
            (''Violation ID 0x'' @ fmt_02lX constraint_id @ '': '' @ error_message);
          t1 = LogHandler ''ERROR'' full_msg
                 (t @ [Enter_ReportViolation constraint_id error_message])
      in if constraint_id = CONSTRAINT_ID_SYS_CLK_RANGE \<or>
            constraint_id = CONSTRAINT_ID_RAM_ACCESS_OOB
         then ErrorHandler fuel constraint_id
                ''Critical constraint violation. System halted.'' t1
         else Returned () t1)"

text \<open>\<^verbatim>\<open>ConstraintsManager_ValidateClockFrequency\<close> (lines 97 to 107).\<close>

definition ConstraintsManager_ValidateClockFrequency ::
  "nat \<Rightarrow> u32 \<Rightarrow> event list \<Rightarrow> bool outcome"
where
  "ConstraintsManager_ValidateClockFrequency fuel freq_hz t =
     (if freq_hz < SYS_CLK_MIN_HZ \<or> freq_hz > SYS_CLK_MAX_HZ
      then
        (let msg = snprintf 128
               (''Clock frequency '' @ fmt_lu (unat freq_hz) @
                '' Hz is out of bounds ['' @ fmt_lu (unat SYS_CLK_MIN_HZ) @
                '' - '' @ fmt_lu (unat SYS_CLK_MAX_HZ) @ ''] Hz.'')
         in case ConstraintsManager_ReportViolation fuel CONSTRAINT_ID_SYS_CLK_RANGE msg t of
              Returned u t1 \<Rightarrow> Returned False t1
            | Spinning t1 \<Rightarrow> Spinning t1)
      else Returned True t)"

text \<open>\<^verbatim>\<open>ConstraintsManager_ValidateRamAddress\<close> (lines 115 to 125).\<close>

definition ConstraintsManager_ValidateRamAddress ::
  "nat \<Rightarrow> u32 \<Rightarrow> event list \<Rightarrow> bool outcome"
where
  "ConstraintsManager_ValidateRamAddress fuel address t =
     (if address < RAM_START_ADDR \<or> address > RAM_END_ADDR
      then
        (let msg = snprintf 128
               (''Memory access 0x'' @ fmt_08lX address @
                '' is outside RAM range [0x'' @ fmt_08lX RAM_START_ADDR @
                '' - 0x'' @ fmt_08lX RAM_END_ADDR @ ''].'')
         in case ConstraintsManager_ReportViolation fuel CONSTRAINT_ID_RAM_ACCESS_OOB msg t of
              Returned u t1 \<Rightarrow> Returned False t1
            | Spinning t1 \<Rightarrow> Spinning t1)
      else Returned True t)"

text \<open>
  \<^verbatim>\<open>ConstraintsManager_CheckCriticalResource\<close> (lines 136 to 161). The health queries
  of the two known branches are commented out in the source, so each of these
  branches only logs and leaves the \<^verbatim>\<open>switch\<close>. The function calls nothing that can
  loop and needs no fuel.
\<close>

definition ConstraintsManager_CheckCriticalResource ::
  "u32 \<Rightarrow> event list \<Rightarrow> bool outcome"
where
  "ConstraintsManager_CheckCriticalResource resource_id t =
     (if resource_id = CONSTRAINT_ID_SENSOR_TIMEOUT
      then Returned True (LogHandler ''INFO'' ''Sensor check OK.'' t)
      else if resource_id = CONSTRAINT_ID_COMM_BUFFER_FULL
      then Returned True (LogHandler ''INFO'' ''Communication buffer check OK.'' t)
      else
        (let msg = snprintf 64
               (''Unknown resource ID 0x'' @ fmt_02lX resource_id @ '' for check.'')
         in Returned False (LogHandler ''WARN'' msg t)))"

text \<open>\<^verbatim>\<open>ConstraintsManager_Init\<close> (lines 81 to 89).\<close>

definition ConstraintsManager_Init :: "nat \<Rightarrow> event list \<Rightarrow> bool outcome" where
  "ConstraintsManager_Init fuel t =
     (let t1 = LogHandler ''INFO'' ''Constraints module initialized.'' t
      in case ConstraintsManager_ValidateClockFrequency fuel (SYS_CLK_MIN_HZ + 1000) t1 of
           Spinning t2 \<Rightarrow> Spinning t2
         | Returned ok t2 \<Rightarrow>
             Returned True
               (if \<not> ok
                then LogHandler ''WARN'' ''Initial clock frequency might be out of range.'' t2
                else t2))"

section \<open>Auxiliary facts\<close>

text \<open>The loop of the Escalation Handler is still running after any number of iterations.\<close>

lemma while_true_spins: "while_loop fuel (\<lambda>_. True) (\<lambda>s. s) t = Spinning t"
  by (induction fuel) (simp_all add: while_loop.simps)

lemma ErrorHandler_spins:
  "ErrorHandler fuel i m t =
     Spinning (t @ [Enter_ErrorHandler i m, Stdout (''[FATAL] CONSTRAINTS: '' @ m @ [CHR 0x0A])])"
  by (simp add: ErrorHandler_def LogHandler_def while_true_spins)

lemma length_fmt_lX: "0 < k \<Longrightarrow> n < 16 ^ k \<Longrightarrow> length (fmt_lX n) \<le> k"
proof (induction k arbitrary: n)
  case 0
  then show ?case by simp
next
  case (Suc k)
  show ?case
  proof (cases "n < 16")
    case True
    then show ?thesis by (simp add: fmt_lX.simps)
  next
    case False
    with Suc.prems have k: "0 < k" by (cases k) auto
    from Suc.prems have "n div 16 < 16 ^ k"
      by (simp add: less_mult_imp_div_less mult.commute)
    with Suc.IH k have "length (fmt_lX (n div 16)) \<le> k" by blast
    with False show ?thesis by (subst fmt_lX.simps) simp
  qed
qed

lemma length_fmt_lX_u32: "length (fmt_lX (unat (x::u32))) \<le> 8"
proof -
  have "unat x < 2 ^ 32" using unsigned_less [of x] by simp
  then have "unat x < 16 ^ 8" by simp
  then show ?thesis by (intro length_fmt_lX) simp_all
qed

lemma length_fmt_02lX: "2 \<le> length (fmt_02lX x) \<and> length (fmt_02lX x) \<le> 8"
  using length_fmt_lX_u32 [of x] by (auto simp: fmt_02lX_def zero_pad_def)

lemma report_calls_append: "report_calls (t @ es) = report_calls t @ report_calls es"
  by (induction t rule: report_calls.induct) simp_all

lemma escalations_append: "escalations (t @ es) = escalations t @ escalations es"
  by (induction t rule: escalations.induct) simp_all

lemma printed_append: "printed (t @ es) = printed t @ printed es"
  by (induction t rule: printed.induct) simp_all

lemma take_past_prefix: "length p \<le> n \<Longrightarrow> take n (p @ m) = p @ take (n - length p) m"
  by simp

lemma violation_line:
  "snprintf 256 (''Violation ID 0x'' @ fmt_02lX i @ '': '' @ m) =
     ''Violation ID 0x'' @ fmt_02lX i @ '': '' @ take (238 - length (fmt_02lX i)) m"
proof -
  let ?p = "''Violation ID 0x'' @ fmt_02lX i @ '': ''"
  have len: "length ?p = 17 + length (fmt_02lX i)" by simp
  with length_fmt_02lX [of i] have "length ?p \<le> 255" by linarith
  then have "take 255 (?p @ m) = ?p @ take (255 - length ?p) m"
    by (rule take_past_prefix)
  moreover have "255 - length ?p = 238 - length (fmt_02lX i)"
    unfolding len by simp
  ultimately show ?thesis by (simp add: snprintf_def)
qed

lemma unknown_resource_line:
  "snprintf 64 (''Unknown resource ID 0x'' @ fmt_02lX r @ '' for check.'') =
     ''Unknown resource ID 0x'' @ fmt_02lX r @ '' for check.''"
proof -
  let ?s = "''Unknown resource ID 0x'' @ fmt_02lX r @ '' for check.''"
  have "length ?s = 33 + length (fmt_02lX r)" by simp
  with length_fmt_02lX [of r] have "length ?s \<le> 63" by linarith
  then have "take 63 ?s = ?s" by (rule take_all)
  then show ?thesis by (simp add: snprintf_def)
qed

lemma ReportViolation_outcome:
  "ConstraintsManager_ReportViolation fuel i m t =
     (if i = 0x01 \<or> i = 0x02
      then Spinning (t @
             [Enter_ReportViolation i m,
              Stdout (''[ERROR] CONSTRAINTS: '' @ snprintf 256 (''Violation ID 0x'' @ fmt_02lX i @ '': '' @ m) @ [CHR 0x0A]),
              Enter_ErrorHandler i ''Critical constraint violation. System halted.'',
              Stdout (''[FATAL] CONSTRAINTS: Critical constraint violation. System halted.'' @ [CHR 0x0A])])
      else Returned () (t @
             [Enter_ReportViolation i m,
              Stdout (''[ERROR] CONSTRAINTS: '' @ snprintf 256 (''Violation ID 0x'' @ fmt_02lX i @ '': '' @ m) @ [CHR 0x0A])]))"
  by (simp add: ConstraintsManager_ReportViolation_def CONSTRAINT_ID_SYS_CLK_RANGE_def
      CONSTRAINT_ID_RAM_ACCESS_OOB_def ErrorHandler_spins LogHandler_def Let_def)

lemma clock_bounds:
  "(freq_hz < SYS_CLK_MIN_HZ \<or> freq_hz > SYS_CLK_MAX_HZ) =
     (\<not> (80000000 \<le> freq_hz \<and> freq_hz \<le> 200000000))"
  by (auto simp: SYS_CLK_MIN_HZ_def SYS_CLK_MAX_HZ_def)

lemma RAM_END_ADDR_value: "RAM_END_ADDR = 0x2001FFFF"
  by (simp add: RAM_END_ADDR_def RAM_START_ADDR_def RAM_SIZE_BYTES_def)

lemma ram_bounds:
  "(address < RAM_START_ADDR \<or> address > RAM_END_ADDR) =
     (\<not> (0x20000000 \<le> address \<and> address \<le> 0x2001FFFF))"
  by (auto simp: RAM_END_ADDR_value RAM_START_ADDR_def)

text \<open>What each function of the validation API does, in terms of the trace.\<close>

lemma ValidateClockFrequency_valid:
  "80000000 \<le> freq_hz \<Longrightarrow> freq_hz \<le> 200000000 \<Longrightarrow>
   ConstraintsManager_ValidateClockFrequency fuel freq_hz t = Returned True t"
  by (simp add: ConstraintsManager_ValidateClockFrequency_def clock_bounds)

lemma ValidateClockFrequency_invalid:
  "freq_hz < 80000000 \<or> 200000000 < freq_hz \<Longrightarrow>
   ConstraintsManager_ValidateClockFrequency fuel freq_hz t =
     Spinning (trace_of (ConstraintsManager_ReportViolation fuel CONSTRAINT_ID_SYS_CLK_RANGE
       (snprintf 128
          (''Clock frequency '' @ fmt_lu (unat freq_hz) @
           '' Hz is out of bounds ['' @ fmt_lu (unat SYS_CLK_MIN_HZ) @
           '' - '' @ fmt_lu (unat SYS_CLK_MAX_HZ) @ ''] Hz.'')) t))"
  unfolding ConstraintsManager_ValidateClockFrequency_def clock_bounds
  by (auto simp: ReportViolation_outcome CONSTRAINT_ID_SYS_CLK_RANGE_def Let_def)

lemma ValidateRamAddress_valid:
  "0x20000000 \<le> address \<Longrightarrow> address \<le> 0x2001FFFF \<Longrightarrow>
   ConstraintsManager_ValidateRamAddress fuel address t = Returned True t"
  by (simp add: ConstraintsManager_ValidateRamAddress_def ram_bounds)

lemma ValidateRamAddress_invalid:
  "address < 0x20000000 \<or> 0x2001FFFF < address \<Longrightarrow>
   ConstraintsManager_ValidateRamAddress fuel address t =
     Spinning (trace_of (ConstraintsManager_ReportViolation fuel CONSTRAINT_ID_RAM_ACCESS_OOB
       (snprintf 128
          (''Memory access 0x'' @ fmt_08lX address @
           '' is outside RAM range [0x'' @ fmt_08lX RAM_START_ADDR @
           '' - 0x'' @ fmt_08lX RAM_END_ADDR @ ''].'')) t))"
  unfolding ConstraintsManager_ValidateRamAddress_def ram_bounds
  by (auto simp: ReportViolation_outcome CONSTRAINT_ID_RAM_ACCESS_OOB_def Let_def)

lemma report_calls_ReportViolation:
  "report_calls (trace_of (ConstraintsManager_ReportViolation fuel i m t)) = report_calls t @ [i]"
  by (simp add: ReportViolation_outcome report_calls_append)

lemma escalations_ReportViolation:
  "escalations (trace_of (ConstraintsManager_ReportViolation fuel i m t)) =
     escalations t @ (if i = 0x01 \<or> i = 0x02 then [i] else [])"
  by (simp add: ReportViolation_outcome escalations_append)

lemma CheckCriticalResource_outcome:
  "ConstraintsManager_CheckCriticalResource r t =
     (if r = 0x03 then Returned True (t @ [Stdout (''[INFO] CONSTRAINTS: Sensor check OK.'' @ [CHR 0x0A])])
      else if r = 0x04
      then Returned True (t @ [Stdout (''[INFO] CONSTRAINTS: Communication buffer check OK.'' @ [CHR 0x0A])])
      else Returned False (t @ [Stdout (''[WARN] CONSTRAINTS: Unknown resource ID 0x'' @ fmt_02lX r @
                                         '' for check.'' @ [CHR 0x0A])]))"
  unfolding ConstraintsManager_CheckCriticalResource_def Let_def unknown_resource_line
  by (simp add: CONSTRAINT_ID_SENSOR_TIMEOUT_def CONSTRAINT_ID_COMM_BUFFER_FULL_def LogHandler_def)

text \<open>The digits printed by the hexadecimal conversions.\<close>

lemma digit_char_hex: "d < 16 \<Longrightarrow> digit_char d \<in> set ''0123456789ABCDEF''"
  unfolding digit_char_def by (rule nth_mem) simp

lemma set_fmt_lX: "set (fmt_lX n) \<subseteq> set ''0123456789ABCDEF''"
proof (induction n rule: fmt_lX.induct)
  case (1 n)
  show ?case
  proof (cases "n < 16")
    case True
    with digit_char_hex [of n] show ?thesis by (subst fmt_lX.simps) simp
  next
    case False
    have "digit_char (n mod 16) \<in> set ''0123456789ABCDEF''"
      by (rule digit_char_hex) simp
    with False "1.IH" show ?thesis by (subst fmt_lX.simps) simp
  qed
qed

lemma set_fmt_02lX: "set (fmt_02lX x) \<subseteq> set ''0123456789ABCDEF''"
  using set_fmt_lX [of "unat x"] by (auto simp: fmt_02lX_def zero_pad_def)


lemma ReportViolation_returned:
  "(returned (ConstraintsManager_ReportViolation fuel i m t) = None) = (i = 0x01 \<or> i = 0x02)"
  by (simp add: ReportViolation_outcome)

lemma ValidateClockFrequency_returned:
  "returned (ConstraintsManager_ValidateClockFrequency fuel freq_hz t) =
     (if 80000000 \<le> freq_hz \<and> freq_hz \<le> 200000000 then Some True else None)"
proof (cases "80000000 \<le> freq_hz \<and> freq_hz \<le> 200000000")
  case True
  then show ?thesis by (simp add: ValidateClockFrequency_valid)
next
  case False
  then have "freq_hz < 80000000 \<or> 200000000 < freq_hz" by auto
  from ValidateClockFrequency_invalid [OF this] False show ?thesis by simp
qed

lemma ValidateRamAddress_returned:
  "returned (ConstraintsManager_ValidateRamAddress fuel address t) =
     (if 0x20000000 \<le> address \<and> address \<le> 0x2001FFFF then Some True else None)"
proof (cases "0x20000000 \<le> address \<and> address \<le> 0x2001FFFF")
  case True
  then show ?thesis by (simp add: ValidateRamAddress_valid)
next
  case False
  then have "address < 0x20000000 \<or> 0x2001FFFF < address" by auto
  from ValidateRamAddress_invalid [OF this] False show ?thesis by simp
qed



lemma CheckCriticalResource_returned:
  "returned (ConstraintsManager_CheckCriticalResource r t) = Some (r = 0x03 \<or> r = 0x04)"
  by (simp add: CheckCriticalResource_outcome)


lemma CheckCriticalResource_no_calls:
  "report_calls (trace_of (ConstraintsManager_CheckCriticalResource r t)) = report_calls t \<and>
   escalations (trace_of (ConstraintsManager_CheckCriticalResource r t)) = escalations t"
  by (simp add: CheckCriticalResource_outcome report_calls_append escalations_append)

lemma Init_outcome:
  "ConstraintsManager_Init fuel t =
     Returned True (t @ [Stdout (''[INFO] CONSTRAINTS: Constraints module initialized.'' @ [CHR 0x0A])])"
proof -
  have "(80000000::u32) \<le> SYS_CLK_MIN_HZ + 1000" "SYS_CLK_MIN_HZ + 1000 \<le> (200000000::u32)"
    by (simp_all add: SYS_CLK_MIN_HZ_def)
  then have "ConstraintsManager_ValidateClockFrequency fuel (SYS_CLK_MIN_HZ + 1000) s = Returned True s"
    for s by (rule ValidateClockFrequency_valid)
  then show ?thesis by (simp add: ConstraintsManager_Init_def LogHandler_def)
qed

section \<open>Clock frequency validator\<close>

text \<open>
  C1. The clock validator is documented to return true for a frequency inside
  80000000 \<le> freq_hz \<le> 200000000 and false otherwise, after one call of the Violation
  Reporter with the identifier clock-range (0x01). Inside the range the function does
  return true (\<open>ValidateClockFrequency_valid\<close>). At 79999999, one below the lower bound,
  the reporter is entered once with 0x01, but the function does not return false: the
  reporter escalates that identifier, and for every amount of fuel the call is still
  inside the loop of the Escalation Handler, after the ERROR and FATAL lines. The
  statement \<^verbatim>\<open>return false;\<close> that follows the reporter call in the source is never
  reached.
\<close>

theorem validate_clock_frequency_79999999_never_returns_false:
  "ConstraintsManager_ValidateClockFrequency fuel 79999999 [] =
     Spinning
       [Enter_ReportViolation 1
          ''Clock frequency 79999999 Hz is out of bounds [80000000 - 200000000] Hz.'',
        Stdout (''[ERROR] CONSTRAINTS: Violation ID 0x01: Clock frequency 79999999 Hz is out of bounds [80000000 - 200000000] Hz.'' @ [CHR 0x0A]),
        Enter_ErrorHandler 1 ''Critical constraint violation. System halted.'',
        Stdout (''[FATAL] CONSTRAINTS: Critical constraint violation. System halted.'' @ [CHR 0x0A])] \<and>
   returned (ConstraintsManager_ValidateClockFrequency fuel 79999999 []) \<noteq> Some False \<and>
   report_calls (trace_of (ConstraintsManager_ValidateClockFrequency fuel 79999999 [])) =
     [CONSTRAINT_ID_SYS_CLK_RANGE]"
  by (simp add: ValidateClockFrequency_invalid ReportViolation_outcome
      CONSTRAINT_ID_SYS_CLK_RANGE_def SYS_CLK_MIN_HZ_def SYS_CLK_MAX_HZ_def snprintf_def
      fmt_lu.simps fmt_lX.simps fmt_02lX_def zero_pad_def digit_char_def)

section \<open>RAM address validator\<close>

text \<open>
  C2. The RAM validator is documented to return true for an address inside the window
  0x20000000 to 0x2001FFFF (\<open>RAM_START_ADDR\<close> to \<open>RAM_START_ADDR + RAM_SIZE_BYTES - 1\<close>,
  both ends included) and false otherwise, after a call of the Violation Reporter with
  the identifier RAM-out-of-bounds (0x02). Inside the window the function does return
  true (\<open>ValidateRamAddress_valid\<close>). At 0x1FFFFFFF, one below the window, the reporter
  is entered once with 0x02, but the function does not return false: the reporter
  escalates that identifier, and for every amount of fuel the call is still inside the
  loop of the Escalation Handler. The statement \<^verbatim>\<open>return false;\<close> that follows the
  reporter call in the source is never reached.
\<close>

theorem validate_ram_address_1FFFFFFF_never_returns_false:
  "ConstraintsManager_ValidateRamAddress fuel 0x1FFFFFFF [] =
     Spinning
       [Enter_ReportViolation 2
          ''Memory access 0x1FFFFFFF is outside RAM range [0x20000000 - 0x2001FFFF].'',
        Stdout (''[ERROR] CONSTRAINTS: Violation ID 0x02: Memory access 0x1FFFFFFF is outside RAM range [0x20000000 - 0x2001FFFF].'' @ [CHR 0x0A]),
        Enter_ErrorHandler 2 ''Critical constraint violation. System halted.'',
        Stdout (''[FATAL] CONSTRAINTS: Critical constraint violation. System halted.'' @ [CHR 0x0A])] \<and>
   returned (ConstraintsManager_ValidateRamAddress fuel 0x1FFFFFFF []) \<noteq> Some False \<and>
   report_calls (trace_of (ConstraintsManager_ValidateRamAddress fuel 0x1FFFFFFF [])) =
     [CONSTRAINT_ID_RAM_ACCESS_OOB]"
  by (simp add: ValidateRamAddress_invalid ReportViolation_outcome
      CONSTRAINT_ID_RAM_ACCESS_OOB_def RAM_START_ADDR_def RAM_END_ADDR_value snprintf_def
      fmt_lX.simps fmt_02lX_def fmt_08lX_def zero_pad_def digit_char_def)

section \<open>Violation Reporter\<close>

text \<open>
  C3. For every identifier and message, \<open>ConstraintsManager_ReportViolation\<close> first
  prints one line at level ERROR that carries the identifier as \<^verbatim>\<open>0x\<close> followed by at
  least two and at most eight upper-case hexadecimal digits, then the message (cut so
  that the formatted text fits its 256-byte buffer). If the identifier is 0x01 or 0x02
  it then enters the Escalation Handler with the same identifier and a fixed text, and
  the call does not return, whatever the fuel. For every other identifier it returns
  to its caller and nothing more is printed.
\<close>

theorem report_violation_logs_then_escalates_if_fatal:
  "ConstraintsManager_ReportViolation fuel constraint_id error_message t =
     (if constraint_id = 0x01 \<or> constraint_id = 0x02
      then Spinning (t @
             [Enter_ReportViolation constraint_id error_message,
              Stdout (''[ERROR] CONSTRAINTS: Violation ID 0x'' @ fmt_02lX constraint_id @ '': '' @
                      take (238 - length (fmt_02lX constraint_id)) error_message @ [CHR 0x0A]),
              Enter_ErrorHandler constraint_id ''Critical constraint violation. System halted.'',
              Stdout (''[FATAL] CONSTRAINTS: Critical constraint violation. System halted.'' @
                      [CHR 0x0A])])
      else Returned () (t @
             [Enter_ReportViolation constraint_id error_message,
              Stdout (''[ERROR] CONSTRAINTS: Violation ID 0x'' @ fmt_02lX constraint_id @ '': '' @
                      take (238 - length (fmt_02lX constraint_id)) error_message @ [CHR 0x0A])])) \<and>
   2 \<le> length (fmt_02lX constraint_id) \<and> length (fmt_02lX constraint_id) \<le> 8 \<and>
   set (fmt_02lX constraint_id) \<subseteq> set ''0123456789ABCDEF''"
  unfolding ReportViolation_outcome violation_line
  using length_fmt_02lX [of constraint_id] set_fmt_02lX [of constraint_id]
  by simp

theorem report_violation_logs_then_escalates_if_fatal_witness:
  "ConstraintsManager_ReportViolation 4 0x02 ''bad pointer'' [] =
     Spinning
       [Enter_ReportViolation 2 ''bad pointer'',
        Stdout (''[ERROR] CONSTRAINTS: Violation ID 0x02: bad pointer'' @ [CHR 0x0A]),
        Enter_ErrorHandler 2 ''Critical constraint violation. System halted.'',
        Stdout (''[FATAL] CONSTRAINTS: Critical constraint violation. System halted.'' @ [CHR 0x0A])] \<and>
   ConstraintsManager_ReportViolation 4 0x03 ''Sensor communication timed out.'' [] =
     Returned ()
       [Enter_ReportViolation 3 ''Sensor communication timed out.'',
        Stdout (''[ERROR] CONSTRAINTS: Violation ID 0x03: Sensor communication timed out.'' @ [CHR 0x0A])] \<and>
   ConstraintsManager_ReportViolation 4 0x1234 '''' [] =
     Returned ()
       [Enter_ReportViolation 0x1234 '''',
        Stdout (''[ERROR] CONSTRAINTS: Violation ID 0x1234: '' @ [CHR 0x0A])]"
  using report_violation_logs_then_escalates_if_fatal [of 4 "0x02" "''bad pointer''" "[]"]
        report_violation_logs_then_escalates_if_fatal [of 4 "0x03" "''Sensor communication timed out.''" "[]"]
        report_violation_logs_then_escalates_if_fatal [of 4 "0x1234" "''''" "[]"]
  by (simp add: fmt_lX.simps fmt_02lX_def zero_pad_def digit_char_def)

section \<open>Resource Health Checker\<close>

text \<open>
  C4. For every resource identifier other than sensor-timeout (0x03) and
  comm-buffer-full (0x04), and whatever happened before the call,
  \<open>ConstraintsManager_CheckCriticalResource\<close> prints one line at level WARN and
  returns false; the Escalation Handler is not entered.
\<close>

theorem unknown_resource_is_unhealthy:
  "resource_id \<noteq> CONSTRAINT_ID_SENSOR_TIMEOUT \<Longrightarrow>
   resource_id \<noteq> CONSTRAINT_ID_COMM_BUFFER_FULL \<Longrightarrow>
   ConstraintsManager_CheckCriticalResource resource_id t =
     Returned False
       (t @ [Stdout (''[WARN] CONSTRAINTS: Unknown resource ID 0x'' @ fmt_02lX resource_id @
                     '' for check.'' @ [CHR 0x0A])]) \<and>
   escalations (trace_of (ConstraintsManager_CheckCriticalResource resource_id t)) = escalations t"
  by (simp add: CheckCriticalResource_outcome escalations_append
      CONSTRAINT_ID_SENSOR_TIMEOUT_def CONSTRAINT_ID_COMM_BUFFER_FULL_def)

theorem unknown_resource_is_unhealthy_witness:
  "(0xFF::u32) \<noteq> CONSTRAINT_ID_SENSOR_TIMEOUT \<and> (0xFF::u32) \<noteq> CONSTRAINT_ID_COMM_BUFFER_FULL \<and>
   ConstraintsManager_CheckCriticalResource 0xFF [Stdout ''earlier output''] =
     Returned False
       [Stdout ''earlier output'',
        Stdout (''[WARN] CONSTRAINTS: Unknown resource ID 0xFF for check.'' @ [CHR 0x0A])] \<and>
   escalations (trace_of (ConstraintsManager_CheckCriticalResource 0xFF [Stdout ''earlier output''])) = []"
proof -
  have a: "(0xFF::u32) \<noteq> CONSTRAINT_ID_SENSOR_TIMEOUT"
    by (simp add: CONSTRAINT_ID_SENSOR_TIMEOUT_def)
  have b: "(0xFF::u32) \<noteq> CONSTRAINT_ID_COMM_BUFFER_FULL"
    by (simp add: CONSTRAINT_ID_COMM_BUFFER_FULL_def)
  show ?thesis
    using a b unknown_resource_is_unhealthy [OF a b, of "[Stdout ''earlier output'']"]
    by (simp add: fmt_lX.simps fmt_02lX_def zero_pad_def digit_char_def)
qed

text \<open>
  C6. For the two resource kinds that are defined, sensor-timeout (0x03) and
  comm-buffer-full (0x04), \<open>ConstraintsManager_CheckCriticalResource\<close> prints one line
  at level INFO and returns true: the branch has no query that could report a problem.
\<close>

theorem known_resources_are_healthy_by_default:
  "ConstraintsManager_CheckCriticalResource CONSTRAINT_ID_SENSOR_TIMEOUT t =
     Returned True (t @ [Stdout (''[INFO] CONSTRAINTS: Sensor check OK.'' @ [CHR 0x0A])]) \<and>
   ConstraintsManager_CheckCriticalResource CONSTRAINT_ID_COMM_BUFFER_FULL t =
     Returned True
       (t @ [Stdout (''[INFO] CONSTRAINTS: Communication buffer check OK.'' @ [CHR 0x0A])]) \<and>
   CONSTRAINT_ID_SENSOR_TIMEOUT = 0x03 \<and> CONSTRAINT_ID_COMM_BUFFER_FULL = 0x04"
  by (simp add: CheckCriticalResource_outcome
      CONSTRAINT_ID_SENSOR_TIMEOUT_def CONSTRAINT_ID_COMM_BUFFER_FULL_def)

section \<open>Initialisation\<close>

text \<open>
  C10. \<open>ConstraintsManager_Init\<close> always returns true, after printing its INFO line and
  nothing else: the value it validates, \<open>SYS_CLK_MIN_HZ + 1000\<close>, lies inside the clock
  bounds, so the validator returns true and the branch that prints the warning is not
  taken.
\<close>

theorem init_returns_true:
  "ConstraintsManager_Init fuel t =
     Returned True
       (t @ [Stdout (''[INFO] CONSTRAINTS: Constraints module initialized.'' @ [CHR 0x0A])]) \<and>
   SYS_CLK_MIN_HZ \<le> SYS_CLK_MIN_HZ + 1000 \<and> SYS_CLK_MIN_HZ + 1000 \<le> SYS_CLK_MAX_HZ"
  by (simp add: Init_outcome SYS_CLK_MIN_HZ_def SYS_CLK_MAX_HZ_def)

section \<open>Failure paths and the Violation Reporter\<close>

text \<open>
  C5 (as amended). Every failure path of the two validators passes through the
  Violation Reporter: on an out-of-range input the whole trace of the validator is the
  trace of one call of \<open>ConstraintsManager_ReportViolation\<close>, with the identifier 0x01
  for the clock and 0x02 for the RAM window, so the validator prints nothing by itself.
  The Resource Health Checker does not: it returns false exactly for the identifiers
  other than 0x03 and 0x04, it never enters the Violation Reporter, and on that failing
  path it prints its own line at level WARN.
\<close>

theorem failures_and_the_reporter:
  "(freq_hz < 80000000 \<or> 200000000 < freq_hz \<longrightarrow>
      (\<exists>msg. trace_of (ConstraintsManager_ValidateClockFrequency fuel freq_hz t) =
         trace_of (ConstraintsManager_ReportViolation fuel CONSTRAINT_ID_SYS_CLK_RANGE msg t))) \<and>
   (address < 0x20000000 \<or> 0x2001FFFF < address \<longrightarrow>
      (\<exists>msg. trace_of (ConstraintsManager_ValidateRamAddress fuel address t) =
         trace_of (ConstraintsManager_ReportViolation fuel CONSTRAINT_ID_RAM_ACCESS_OOB msg t))) \<and>
   (returned (ConstraintsManager_CheckCriticalResource resource_id t) = Some False) =
      (resource_id \<noteq> CONSTRAINT_ID_SENSOR_TIMEOUT \<and>
       resource_id \<noteq> CONSTRAINT_ID_COMM_BUFFER_FULL) \<and>
   report_calls (trace_of (ConstraintsManager_CheckCriticalResource resource_id t)) =
      report_calls t \<and>
   (resource_id \<noteq> CONSTRAINT_ID_SENSOR_TIMEOUT \<and>
    resource_id \<noteq> CONSTRAINT_ID_COMM_BUFFER_FULL \<longrightarrow>
      printed (trace_of (ConstraintsManager_CheckCriticalResource resource_id t)) =
        printed t @ [''[WARN] CONSTRAINTS: Unknown resource ID 0x'' @ fmt_02lX resource_id @
                     '' for check.'' @ [CHR 0x0A]])"
proof (intro conjI impI)
  assume out: "freq_hz < 80000000 \<or> 200000000 < freq_hz"
  show "\<exists>msg. trace_of (ConstraintsManager_ValidateClockFrequency fuel freq_hz t) =
         trace_of (ConstraintsManager_ReportViolation fuel CONSTRAINT_ID_SYS_CLK_RANGE msg t)"
    unfolding ValidateClockFrequency_invalid [OF out] trace_of.simps by (rule exI) (rule refl)
next
  assume out: "address < 0x20000000 \<or> 0x2001FFFF < address"
  show "\<exists>msg. trace_of (ConstraintsManager_ValidateRamAddress fuel address t) =
         trace_of (ConstraintsManager_ReportViolation fuel CONSTRAINT_ID_RAM_ACCESS_OOB msg t)"
    unfolding ValidateRamAddress_invalid [OF out] trace_of.simps by (rule exI) (rule refl)
next
  show "(returned (ConstraintsManager_CheckCriticalResource resource_id t) = Some False) =
      (resource_id \<noteq> CONSTRAINT_ID_SENSOR_TIMEOUT \<and>
       resource_id \<noteq> CONSTRAINT_ID_COMM_BUFFER_FULL)"
    by (simp add: CheckCriticalResource_returned CONSTRAINT_ID_SENSOR_TIMEOUT_def
        CONSTRAINT_ID_COMM_BUFFER_FULL_def)
next
  show "report_calls (trace_of (ConstraintsManager_CheckCriticalResource resource_id t)) =
      report_calls t"
    by (simp add: CheckCriticalResource_no_calls)
next
  assume "resource_id \<noteq> CONSTRAINT_ID_SENSOR_TIMEOUT \<and>
    resource_id \<noteq> CONSTRAINT_ID_COMM_BUFFER_FULL"
  then show "printed (trace_of (ConstraintsManager_CheckCriticalResource resource_id t)) =
        printed t @ [''[WARN] CONSTRAINTS: Unknown resource ID 0x'' @ fmt_02lX resource_id @
                     '' for check.'' @ [CHR 0x0A]]"
    by (simp add: CheckCriticalResource_outcome printed_append
        CONSTRAINT_ID_SENSOR_TIMEOUT_def CONSTRAINT_ID_COMM_BUFFER_FULL_def)
qed

theorem failures_and_the_reporter_witness:
  "report_calls (trace_of (ConstraintsManager_ValidateClockFrequency 2 0 [])) = [1] \<and>
   report_calls (trace_of (ConstraintsManager_ValidateRamAddress 2 0xFFFFFFFF [])) = [2] \<and>
   returned (ConstraintsManager_CheckCriticalResource 0x05 []) = Some False \<and>
   report_calls (trace_of (ConstraintsManager_CheckCriticalResource 0x05 [])) = [] \<and>
   printed (trace_of (ConstraintsManager_CheckCriticalResource 0x05 [])) =
     [''[WARN] CONSTRAINTS: Unknown resource ID 0x05 for check.'' @ [CHR 0x0A]]"
proof -
  note inst = failures_and_the_reporter
    [where freq_hz = 0 and address = "0xFFFFFFFF" and fuel = 2 and t = "[]" and resource_id = "0x05"]
  have five: "(0x05::u32) \<noteq> CONSTRAINT_ID_SENSOR_TIMEOUT \<and>
              (0x05::u32) \<noteq> CONSTRAINT_ID_COMM_BUFFER_FULL"
    by (simp add: CONSTRAINT_ID_SENSOR_TIMEOUT_def CONSTRAINT_ID_COMM_BUFFER_FULL_def)
  from inst obtain m1 where
    "trace_of (ConstraintsManager_ValidateClockFrequency 2 0 []) =
       trace_of (ConstraintsManager_ReportViolation 2 CONSTRAINT_ID_SYS_CLK_RANGE m1 [])"
    by auto
  then have a: "report_calls (trace_of (ConstraintsManager_ValidateClockFrequency 2 0 [])) = [1]"
    by (simp add: report_calls_ReportViolation CONSTRAINT_ID_SYS_CLK_RANGE_def)
  from inst obtain m2 where
    "trace_of (ConstraintsManager_ValidateRamAddress 2 0xFFFFFFFF []) =
       trace_of (ConstraintsManager_ReportViolation 2 CONSTRAINT_ID_RAM_ACCESS_OOB m2 [])"
    by auto
  then have b: "report_calls (trace_of (ConstraintsManager_ValidateRamAddress 2 0xFFFFFFFF [])) = [2]"
    by (simp add: report_calls_ReportViolation CONSTRAINT_ID_RAM_ACCESS_OOB_def)
  from inst five have c: "returned (ConstraintsManager_CheckCriticalResource 0x05 []) = Some False"
    by blast
  from inst have d: "report_calls (trace_of (ConstraintsManager_CheckCriticalResource 0x05 [])) = []"
    by simp
  from inst five have "printed (trace_of (ConstraintsManager_CheckCriticalResource 0x05 [])) =
     printed [] @ [''[WARN] CONSTRAINTS: Unknown resource ID 0x'' @ fmt_02lX 0x05 @
                     '' for check.'' @ [CHR 0x0A]]"
    by blast
  then have e: "printed (trace_of (ConstraintsManager_CheckCriticalResource 0x05 [])) =
     [''[WARN] CONSTRAINTS: Unknown resource ID 0x05 for check.'' @ [CHR 0x0A]]"
    by (simp add: fmt_lX.simps fmt_02lX_def zero_pad_def digit_char_def)
  from a b c d e show ?thesis by blast
qed

text \<open>
  The claim as the specification words it has every failing outcome pass through the
  Violation Reporter. For the resource identifier 0xFF the health checker returns false
  and the reporter has not been entered; the only event is the WARN line.
\<close>

theorem check_critical_resource_FF_bypasses_reporter:
  "ConstraintsManager_CheckCriticalResource 0xFF [] =
     Returned False [Stdout (''[WARN] CONSTRAINTS: Unknown resource ID 0xFF for check.'' @ [CHR 0x0A])] \<and>
   report_calls (trace_of (ConstraintsManager_CheckCriticalResource 0xFF [])) = []"
  by (simp add: CheckCriticalResource_outcome fmt_lX.simps fmt_02lX_def zero_pad_def digit_char_def)

section \<open>Termination of the validators\<close>


section \<open>Statelessness\<close>




section \<open>Escalation Handler and the halted state\<close>

text \<open>
  C9. \<open>ErrorHandler\<close> first prints its message at level FATAL and then never returns:
  for every amount of fuel the call is still inside its loop, and no event follows the
  FATAL line. A call that does not return is the halted state of the module, and it is
  reached only through a fatal violation: the Violation Reporter does not return
  exactly for the identifiers 0x01 and 0x02, and exactly then it has entered the
  Escalation Handler; the clock and RAM validators do not return exactly on
  out-of-range input; the Resource Health Checker and the initialisation always
  return. Since this holds for every fuel, nothing leads back from the halted state.
\<close>

theorem error_handler_logs_fatal_and_never_returns:
  "ErrorHandler fuel violation_id message t =
     Spinning (t @ [Enter_ErrorHandler violation_id message,
                    Stdout (''[FATAL] CONSTRAINTS: '' @ message @ [CHR 0x0A])]) \<and>
   (returned (ConstraintsManager_ReportViolation fuel constraint_id error_message t) = None) =
     (constraint_id = 0x01 \<or> constraint_id = 0x02) \<and>
   escalations (trace_of (ConstraintsManager_ReportViolation fuel constraint_id error_message t)) =
     escalations t @ (if constraint_id = 0x01 \<or> constraint_id = 0x02 then [constraint_id] else []) \<and>
   (returned (ConstraintsManager_ValidateClockFrequency fuel freq_hz t) = None) =
     (freq_hz < 80000000 \<or> 200000000 < freq_hz) \<and>
   (returned (ConstraintsManager_ValidateRamAddress fuel address t) = None) =
     (address < 0x20000000 \<or> 0x2001FFFF < address) \<and>
   returned (ConstraintsManager_CheckCriticalResource resource_id t) \<noteq> None \<and>
   returned (ConstraintsManager_Init fuel t) \<noteq> None"
proof (intro conjI)
  show "ErrorHandler fuel violation_id message t =
     Spinning (t @ [Enter_ErrorHandler violation_id message,
                    Stdout (''[FATAL] CONSTRAINTS: '' @ message @ [CHR 0x0A])])"
    by (rule ErrorHandler_spins)
  show "(returned (ConstraintsManager_ReportViolation fuel constraint_id error_message t) = None) =
     (constraint_id = 0x01 \<or> constraint_id = 0x02)"
    by (rule ReportViolation_returned)
  show "escalations (trace_of (ConstraintsManager_ReportViolation fuel constraint_id error_message t)) =
     escalations t @ (if constraint_id = 0x01 \<or> constraint_id = 0x02 then [constraint_id] else [])"
    by (rule escalations_ReportViolation)
  show "(returned (ConstraintsManager_ValidateClockFrequency fuel freq_hz t) = None) =
     (freq_hz < 80000000 \<or> 200000000 < freq_hz)"
    by (auto simp: ValidateClockFrequency_returned)
  show "(returned (ConstraintsManager_ValidateRamAddress fuel address t) = None) =
     (address < 0x20000000 \<or> 0x2001FFFF < address)"
    by (auto simp: ValidateRamAddress_returned)
  show "returned (ConstraintsManager_CheckCriticalResource resource_id t) \<noteq> None"
    by (simp add: CheckCriticalResource_returned)
  show "returned (ConstraintsManager_Init fuel t) \<noteq> None"
    by (simp add: Init_outcome)
qed

end
